theory Spec2Isabelle
  imports Complex_Main "HOL-Library.Word" "HOL-Library.AList"
begin

section \<open>Values of the JavaScript runtime\<close>

text \<open>
  A JavaScript string is a sequence of UTF-16 code units. ASCII text is written with
  \<open>str\<close>; the icons of the weather table are given by their code units.
\<close>

type_synonym jsstring = "16 word list"

definition str :: "string \<Rightarrow> jsstring" where
  "str cs = map (\<lambda>c. of_nat (of_char c)) cs"

text \<open>
  Numbers are the finite doubles that \<open>JSON.parse\<close> and the geolocation API produce,
  read as the rationals they denote (rounding is not modelled; no operation here does
  arithmetic on them). \<open>JUndef\<close> is \<open>undefined\<close>, the value of a missing property.
  An object is the list of its own properties in insertion order.
\<close>

datatype jsval =
    JUndef
  | JNull
  | JBool bool
  | JNum rat
  | JStr jsstring
  | JArr "jsval list"
  | JObj "(jsstring \<times> jsval) list"

text \<open>A thrown value, with its \<open>message\<close> property.\<close>

datatype thrown = Thrown jsstring

fun message :: "thrown \<Rightarrow> jsstring" where
  "message (Thrown m) = m"

text \<open>\<open>err.message || fallback\<close>: the empty string is falsy.\<close>

definition message_or :: "thrown \<Rightarrow> jsstring \<Rightarrow> jsstring" where
  "message_or e fallback = (if message e = [] then fallback else message e)"

text \<open>
  Reading a property of \<open>null\<close> or \<open>undefined\<close> throws a TypeError. Its message is
  chosen by the engine; the wording below is V8's.
\<close>

definition cannot_read :: "string \<Rightarrow> jsstring \<Rightarrow> thrown" where
  "cannot_read what prop =
     Thrown (str ''Cannot read properties of '' @ str what @ str '' (reading '' @
             [39] @ prop @ [39] @ str '')'')"

text \<open>
  \<open>v.prop\<close>, for the property names this program reads (none of them is defined on a
  prototype): own properties of an object, \<open>undefined\<close> on every other value that
  has properties at all.
\<close>

fun js_get :: "jsval \<Rightarrow> jsstring \<Rightarrow> thrown + jsval" where
  "js_get JUndef p = Inl (cannot_read ''undefined'' p)"
| "js_get JNull p = Inl (cannot_read ''null'' p)"
| "js_get (JObj kvs) p = Inr (case map_of kvs p of Some v \<Rightarrow> v | None \<Rightarrow> JUndef)"
| "js_get _ p = Inr JUndef"

text \<open>Truthiness (\<open>!v\<close>, \<open>v ? a : b\<close>, \<open>v || w\<close>).\<close>

fun truthy :: "jsval \<Rightarrow> bool" where
  "truthy JUndef = False"
| "truthy JNull = False"
| "truthy (JBool b) = b"
| "truthy (JNum n) = (n \<noteq> 0)"
| "truthy (JStr s) = (s \<noteq> [])"
| "truthy (JArr _) = True"
| "truthy (JObj _) = True"

text \<open>\<open>v.length === 0\<close> for a value \<open>v\<close> that is neither \<open>null\<close> nor \<open>undefined\<close>.\<close>

fun length_is_zero :: "jsval \<Rightarrow> bool" where
  "length_is_zero (JArr xs) = (xs = [])"
| "length_is_zero (JStr s) = (s = [])"
| "length_is_zero (JObj kvs) = (map_of kvs (str ''length'') = Some (JNum 0))"
| "length_is_zero _ = False"

text \<open>Decimal digits of a non-negative integer, as \<open>`${n}`\<close> prints it.\<close>

fun string_of_nat :: "nat \<Rightarrow> jsstring" where
  "string_of_nat n =
     (if n < 10 then [of_nat (48 + n)]
      else string_of_nat (n div 10) @ [of_nat (48 + n mod 10)])"

declare string_of_nat.simps [simp del]

text \<open>The number that a string of decimal digits denotes.\<close>

definition digits_value :: "jsstring \<Rightarrow> nat" where
  "digits_value ds = foldl (\<lambda>a d. 10 * a + (unat d - 48)) 0 ds"

section \<open>Weather codes\<close>

record descriptor =
  text' :: jsstring
  icon :: jsstring

text \<open>
  \<open>WEATHER_CODE_MAP\<close>. A number indexes the table through its decimal string, so a
  finite number finds an entry exactly when it equals the entry's key.
\<close>

definition WEATHER_CODE_MAP :: "(rat \<times> descriptor) list" where
  "WEATHER_CODE_MAP =
    [(0, \<lparr>text' = str ''Clear sky'', icon = [0x2600, 0xFE0F]\<rparr>),
     (1, \<lparr>text' = str ''Mainly clear'', icon = [0xD83C, 0xDF24, 0xFE0F]\<rparr>),
     (2, \<lparr>text' = str ''Partly cloudy'', icon = [0x26C5]\<rparr>),
     (3, \<lparr>text' = str ''Overcast'', icon = [0x2601, 0xFE0F]\<rparr>),
     (45, \<lparr>text' = str ''Fog'', icon = [0xD83C, 0xDF2B, 0xFE0F]\<rparr>),
     (48, \<lparr>text' = str ''Fog (rime)'', icon = [0xD83C, 0xDF2B, 0xFE0F]\<rparr>),
     (51, \<lparr>text' = str ''Light drizzle'', icon = [0xD83C, 0xDF26, 0xFE0F]\<rparr>),
     (61, \<lparr>text' = str ''Slight rain'', icon = [0xD83C, 0xDF27, 0xFE0F]\<rparr>),
     (63, \<lparr>text' = str ''Moderate rain'', icon = [0xD83C, 0xDF27, 0xFE0F]\<rparr>),
     (65, \<lparr>text' = str ''Heavy rain'', icon = [0x26C8, 0xFE0F]\<rparr>),
     (71, \<lparr>text' = str ''Light snow'', icon = [0x2744, 0xFE0F]\<rparr>),
     (80, \<lparr>text' = str ''Showers'', icon = [0xD83C, 0xDF27, 0xFE0F]\<rparr>),
     (95, \<lparr>text' = str ''Thunderstorm'', icon = [0x26C8, 0xFE0F]\<rparr>)]"

definition unknown_descriptor :: descriptor where
  "unknown_descriptor = \<lparr>text' = str ''Unknown'', icon = [0x2753]\<rparr>"

text \<open>\<open>mapWeather(code?: number)\<close>; \<open>None\<close> is an absent (\<open>null\<close> or \<open>undefined\<close>) code.\<close>

definition mapWeather :: "rat option \<Rightarrow> descriptor" where
  "mapWeather code =
     (case code of
        None \<Rightarrow> unknown_descriptor
      | Some c \<Rightarrow>
          (case map_of WEATHER_CODE_MAP c of
             Some d \<Rightarrow> d
           | None \<Rightarrow> unknown_descriptor))"

section \<open>Application state\<close>

text \<open>
  The six \<open>useState\<close> cells of \<open>App\<close>. \<open>locations\<close> and \<open>weather\<close> hold whatever
  the handlers store (\<open>any\<close>); \<open>weather = JNull\<close> and \<open>error = None\<close> are \<open>null\<close>.
\<close>

record app_state =
  query :: jsstring
  locations :: jsval
  loadingGeo :: bool
  loadingWeather :: bool
  weather :: jsval
  error :: "jsstring option"

definition initial_state :: app_state where
  "initial_state =
     \<lparr>query = [], locations = JArr [], loadingGeo = False, loadingWeather = False,
      weather = JNull, error = None\<rparr>"

text \<open>
  The two HTTP GET requests, by what varies in their URLs:
  \<open>https://geocoding-api.open-meteo.com/v1/search?name=<query>&count=5&language=en&format=json\<close>
  and
  \<open>https://api.open-meteo.com/v1/forecast?latitude=<lat>&longitude=<lon>&current_weather=true&daily=...&timezone=auto\<close>.
\<close>

datatype request = GeoRequest jsstring | ForecastRequest rat rat

text \<open>
  How a \<open>fetch\<close> settles. The promise rejects, or it yields a response with a status
  and a body; reading the body rejects (\<open>BodyFailed\<close>), or the body is not JSON
  (\<open>NotJson\<close>, with the SyntaxError of the parser), or it parses to a value.
\<close>

datatype body_outcome = BodyFailed thrown | NotJson thrown | Json jsval

record response =
  status :: nat
  payload :: body_outcome

datatype fetch_outcome = Rejected thrown | Responded response

text \<open>\<open>res.ok\<close>, as the Fetch standard defines it from the status.\<close>

definition ok :: "response \<Rightarrow> bool" where
  "ok res = (200 \<le> status res \<and> status res \<le> 299)"

section \<open>Geocoding search\<close>

text \<open>
  \<open>String.prototype.trim\<close> strips white space and line terminators from both ends.
\<close>

definition is_white :: "16 word \<Rightarrow> bool" where
  "is_white c =
     (c \<in> set [0x9, 0xA, 0xB, 0xC, 0xD, 0x20, 0xA0, 0x1680, 0x2028, 0x2029, 0x202F,
                0x205F, 0x3000, 0xFEFF]
      \<or> (0x2000 \<le> c \<and> c \<le> 0x200A))"

definition trim :: "jsstring \<Rightarrow> jsstring" where
  "trim s = rev (dropWhile is_white (rev (dropWhile is_white s)))"

text \<open>
  \<open>encodeURIComponent\<close> reads its argument code point by code point and throws a
  URIError at a surrogate that is not part of a pair: a trailing surrogate on its own,
  or a leading one not followed by a trailing one. The message is the engine's; the
  wording below is V8's.
\<close>

definition is_leading_surrogate :: "16 word \<Rightarrow> bool" where
  "is_leading_surrogate c = (0xD800 \<le> c \<and> c \<le> 0xDBFF)"

definition is_trailing_surrogate :: "16 word \<Rightarrow> bool" where
  "is_trailing_surrogate c = (0xDC00 \<le> c \<and> c \<le> 0xDFFF)"

fun has_unpaired_surrogate :: "jsstring \<Rightarrow> bool" where
  "has_unpaired_surrogate [] = False"
| "has_unpaired_surrogate [c] = (is_leading_surrogate c \<or> is_trailing_surrogate c)"
| "has_unpaired_surrogate (c # d # cs) =
     (if is_trailing_surrogate c then True
      else if is_leading_surrogate c
           then (if is_trailing_surrogate d then has_unpaired_surrogate cs else True)
           else has_unpaired_surrogate (d # cs))"

definition uri_malformed :: thrown where
  "uri_malformed = Thrown (str ''URI malformed'')"

text \<open>
  \<open>searchCity\<close> up to its first \<open>await\<close>: the new state and the request sent, if any.
  \<open>query\<close> is the value the handler closes over, the query text of the state it is
  called in. (\<open>e?.preventDefault()\<close> acts on the form event, not on the state.)
  The URL is built inside the \<open>try\<close> block, so when \<open>encodeURIComponent\<close> throws,
  the \<open>catch\<close> and the \<open>finally\<close> run at once and nothing is fetched.
\<close>

definition searchCity_start :: "app_state \<Rightarrow> app_state \<times> request option" where
  "searchCity_start s =
     (if trim (query s) = [] then (s, None)
      else if has_unpaired_surrogate (query s)
      then (s\<lparr>error := Some (message_or uri_malformed (str ''Failed to search location.'')),
              locations := JArr [], weather := JNull, loadingGeo := False\<rparr>,
            None)
      else (s\<lparr>error := None, locations := JArr [], weather := JNull, loadingGeo := True\<rparr>,
            Some (GeoRequest (query s))))"

text \<open>
  The body of the \<open>try\<close> block once the request has settled: the exception it throws,
  or the state after its \<open>setError\<close> or \<open>setLocations\<close>.
\<close>

definition searchCity_try :: "fetch_outcome \<Rightarrow> app_state \<Rightarrow> thrown + app_state" where
  "searchCity_try outcome s =
     (case outcome of
        Rejected e \<Rightarrow> Inl e
      | Responded res \<Rightarrow>
          if \<not> ok res then Inl (Thrown (str ''Geocoding failed''))
          else
            (case payload res of
               BodyFailed e \<Rightarrow> Inl e
             | NotJson e \<Rightarrow> Inl e
             | Json data \<Rightarrow>
                 (case js_get data (str ''results'') of
                    Inl e \<Rightarrow> Inl e
                  | Inr results \<Rightarrow>
                      if \<not> truthy results \<or> length_is_zero results
                      then Inr (s\<lparr>error := Some (str ''No matching locations found.'')\<rparr>)
                      else Inr (s\<lparr>locations := results\<rparr>))))"

text \<open>The \<open>try\<close> block with its \<open>catch\<close> and \<open>finally\<close>.\<close>

definition searchCity_resolve :: "fetch_outcome \<Rightarrow> app_state \<Rightarrow> app_state" where
  "searchCity_resolve outcome s =
     (case searchCity_try outcome s of
        Inl e \<Rightarrow> s\<lparr>error := Some (message_or e (str ''Failed to search location.''))\<rparr>
      | Inr s' \<Rightarrow> s')\<lparr>loadingGeo := False\<rparr>"

text \<open>A whole search with nothing else running in between.\<close>

definition searchCity :: "fetch_outcome \<Rightarrow> app_state \<Rightarrow> app_state" where
  "searchCity outcome s =
     (case searchCity_start s of
        (s', None) \<Rightarrow> s'
      | (s', Some _) \<Rightarrow> searchCity_resolve outcome s')"

section \<open>Forecast fetch\<close>

text \<open>
  \<open>x.toFixed(2)\<close> for a magnitude below \<open>10\<^sup>2\<^sup>1\<close>: the sign, then the nearest multiple of
  \<open>1/100\<close> (the larger one on a tie) with at least one digit before the point. From
  \<open>10\<^sup>2\<^sup>1\<close> on, JavaScript prints the number in exponent notation instead, so the
  handlers below take the formatter as a parameter \<open>fixed2\<close>.
\<close>

definition toFixed2 :: "rat \<Rightarrow> jsstring" where
  "toFixed2 x =
     (let n = nat \<lfloor>\<bar>x\<bar> * 100 + 1 / 2\<rfloor>;
          m = string_of_nat n;
          m' = replicate (3 - length m) 48 @ m
      in (if x < 0 then [45] else []) @
         take (length m' - 2) m' @ [46] @ drop (length m' - 2) m')"

text \<open>\<open>fetchWeatherByCoords(lat, lon, placeName?)\<close> up to its first \<open>await\<close>.\<close>

definition fetchWeatherByCoords_start ::
  "(rat \<Rightarrow> jsstring) \<Rightarrow> rat \<Rightarrow> rat \<Rightarrow> jsstring option \<Rightarrow> app_state \<Rightarrow> app_state \<times> request"
where
  "fetchWeatherByCoords_start fixed2 lat lon placeName s =
     (s\<lparr>error := None, loadingWeather := True, weather := JNull, locations := JArr [],
        query := (case placeName of
                    Some p \<Rightarrow> p
                  | None \<Rightarrow> fixed2 lat @ str '', '' @ fixed2 lon)\<rparr>,
      ForecastRequest lat lon)"

text \<open>The own enumerable properties that an object spread copies.\<close>

fun own_props :: "jsval \<Rightarrow> (jsstring \<times> jsval) list" where
  "own_props (JObj kvs) = kvs"
| "own_props (JArr xs) = zip (map string_of_nat [0..<length xs]) xs"
| "own_props (JStr cs) = zip (map string_of_nat [0..<length cs]) (map (\<lambda>c. JStr [c]) cs)"
| "own_props _ = []"

text \<open>\<open>{ ...data, placeName: v }\<close>\<close>

definition with_placeName :: "jsval \<Rightarrow> jsval \<Rightarrow> jsval" where
  "with_placeName data v = JObj (AList.update (str ''placeName'') v (own_props data))"

text \<open>
  The body of the \<open>try\<close> block once the request has settled: the exception it throws,
  or the value it passes to \<open>setWeather\<close>.
\<close>

definition fetchWeatherByCoords_try :: "jsstring option \<Rightarrow> fetch_outcome \<Rightarrow> thrown + jsval" where
  "fetchWeatherByCoords_try placeName outcome =
     (case outcome of
        Rejected e \<Rightarrow> Inl e
      | Responded res \<Rightarrow>
          if \<not> ok res
          then Inl (Thrown (str ''Weather request failed with status '' @
                            string_of_nat (status res)))
          else
            (case payload res of
               BodyFailed e \<Rightarrow> Inl e
             | NotJson _ \<Rightarrow> Inl (Thrown (str ''Unexpected response format from API''))
             | Json data \<Rightarrow>
                 (case js_get data (str ''current_weather'') of
                    Inl e \<Rightarrow> Inl e
                  | Inr cw \<Rightarrow>
                      if \<not> truthy cw
                      then Inl (Thrown (str ''Weather data not found in API response''))
                      else
                        (case placeName of
                           Some p \<Rightarrow> Inr (with_placeName data (JStr p))
                         | None \<Rightarrow>
                             (case js_get data (str ''timezone'') of
                                Inl e \<Rightarrow> Inl e
                              | Inr tz \<Rightarrow> Inr (with_placeName data tz))))))"

definition fetchWeatherByCoords_resolve ::
  "jsstring option \<Rightarrow> fetch_outcome \<Rightarrow> app_state \<Rightarrow> app_state"
where
  "fetchWeatherByCoords_resolve placeName outcome s =
     (case fetchWeatherByCoords_try placeName outcome of
        Inl e \<Rightarrow> s\<lparr>error := Some (message_or e (str ''Failed to fetch weather.''))\<rparr>
      | Inr w \<Rightarrow> s\<lparr>weather := w\<rparr>)\<lparr>loadingWeather := False\<rparr>"

text \<open>A whole fetch with nothing else running in between.\<close>

definition fetchWeatherByCoords ::
  "(rat \<Rightarrow> jsstring) \<Rightarrow> rat \<Rightarrow> rat \<Rightarrow> jsstring option \<Rightarrow> fetch_outcome \<Rightarrow> app_state \<Rightarrow> app_state"
where
  "fetchWeatherByCoords fixed2 lat lon placeName outcome s =
     fetchWeatherByCoords_resolve placeName outcome
       (fst (fetchWeatherByCoords_start fixed2 lat lon placeName s))"

section \<open>Selecting a candidate\<close>

text \<open>
  An entry of the candidate list, with the fields of the geocoding API's result objects.
\<close>

record location =
  name :: jsstring
  admin1 :: "jsstring option"
  country :: jsstring
  latitude :: rat
  longitude :: rat
  population :: "rat option"

text \<open>\<open>`${loc.name}${loc.admin1 ? ", " + loc.admin1 : ""}`\<close>\<close>

definition location_label :: "location \<Rightarrow> jsstring" where
  "location_label loc =
     name loc @
     (case admin1 loc of
        Some a \<Rightarrow> if a \<noteq> [] then str '', '' @ a else []
      | None \<Rightarrow> [])"

definition onSelectLocation_start ::
  "(rat \<Rightarrow> jsstring) \<Rightarrow> location \<Rightarrow> app_state \<Rightarrow> app_state \<times> request"
where
  "onSelectLocation_start fixed2 loc s =
     fetchWeatherByCoords_start fixed2 (latitude loc) (longitude loc)
       (Some (location_label loc)) s"

definition onSelectLocation ::
  "(rat \<Rightarrow> jsstring) \<Rightarrow> location \<Rightarrow> fetch_outcome \<Rightarrow> app_state \<Rightarrow> app_state"
where
  "onSelectLocation fixed2 loc outcome s =
     fetchWeatherByCoords fixed2 (latitude loc) (longitude loc)
       (Some (location_label loc)) outcome s"

section \<open>Device location\<close>

text \<open>
  \<open>useMyLocation\<close> up to the call of \<open>getCurrentPosition\<close>; \<open>geolocation\<close> tells whether
  \<open>navigator.geolocation\<close> exists. The flag returned tells whether a position was
  requested.
\<close>

definition useMyLocation_start :: "bool \<Rightarrow> app_state \<Rightarrow> app_state \<times> bool" where
  "useMyLocation_start geolocation s =
     (if \<not> geolocation
      then (s\<lparr>error := Some (str ''Geolocation not available in your browser.'')\<rparr>, False)
      else (s\<lparr>error := None, loadingWeather := True\<rparr>, True))"

text \<open>The two callbacks given to \<open>getCurrentPosition\<close>.\<close>

datatype position_outcome = Position rat rat | PositionError jsstring

definition useMyLocation_resolve ::
  "(rat \<Rightarrow> jsstring) \<Rightarrow> position_outcome \<Rightarrow> app_state \<Rightarrow> app_state \<times> request option"
where
  "useMyLocation_resolve fixed2 outcome s =
     (case outcome of
        Position lat lon \<Rightarrow>
          (case fetchWeatherByCoords_start fixed2 lat lon (Some (str ''Your location'')) s of
             (s', req) \<Rightarrow> (s', Some req))
      | PositionError m \<Rightarrow>
          (s\<lparr>loadingWeather := False,
             error := Some (str ''Could not get location: '' @ m)\<rparr>, None))"

section \<open>The forecast view\<close>

text \<open>
  \<open>weather.daily?.time?.slice(0, 3)\<close>, the days the forecast panel maps over. A
  \<open>null\<close> or \<open>undefined\<close> link ends the chain and nothing is shown. A \<open>time\<close> that is
  a string is sliced to a string, which has no \<open>map\<close>; a \<open>time\<close> that is a number, a
  boolean or an object has no \<open>slice\<close> to call. Both are TypeErrors (their messages are
  again the engine's). This is the receiver of \<open>map\<close> only: what the callback makes of
  each day is not part of it.
\<close>

definition slice_not_a_function :: thrown where
  "slice_not_a_function = Thrown (str ''weather.daily?.time?.slice is not a function'')"

definition map_not_a_function :: thrown where
  "map_not_a_function =
     Thrown (str ''weather.daily?.time?.slice(...).map is not a function'')"

text \<open>\<open>weather.daily.time\<close> as the snapshot holds it, before the view slices it.\<close>

definition daily_time :: "jsval \<Rightarrow> jsval list" where
  "daily_time w =
     (case js_get w (str ''daily'') of
        Inl _ \<Rightarrow> []
      | Inr daily \<Rightarrow>
          (case js_get daily (str ''time'') of
             Inr (JArr days) \<Rightarrow> days
           | _ \<Rightarrow> []))"

definition forecastDays :: "jsval \<Rightarrow> thrown + jsval list" where
  "forecastDays w =
     (case js_get w (str ''daily'') of
        Inl e \<Rightarrow> Inl e
      | Inr JUndef \<Rightarrow> Inr []
      | Inr JNull \<Rightarrow> Inr []
      | Inr daily \<Rightarrow>
          (case js_get daily (str ''time'') of
             Inl e \<Rightarrow> Inl e
           | Inr JUndef \<Rightarrow> Inr []
           | Inr JNull \<Rightarrow> Inr []
           | Inr (JArr days) \<Rightarrow> Inr (take 3 days)
           | Inr (JStr _) \<Rightarrow> Inl map_not_a_function
           | Inr _ \<Rightarrow> Inl slice_not_a_function))"

section \<open>Sample inputs\<close>

text \<open>A forecast payload with five daily entries, and the first candidate for London.\<close>

definition five_days :: "jsval list" where
  "five_days =
     [JStr (str ''2024-05-01''), JStr (str ''2024-05-02''), JStr (str ''2024-05-03''),
      JStr (str ''2024-05-04''), JStr (str ''2024-05-05'')]"

definition five_day_daily :: jsval where
  "five_day_daily =
     JObj [(str ''time'', JArr five_days),
           (str ''weathercode'', JArr [JNum 3, JNum 61, JNum 0, JNum 2, JNum 80]),
           (str ''temperature_2m_max'', JArr [JNum 15, JNum 13, JNum 17, JNum 18, JNum 16]),
           (str ''temperature_2m_min'', JArr [JNum 8, JNum 7, JNum 9, JNum 10, JNum 9])]"

definition five_day_current :: jsval where
  "five_day_current =
     JObj [(str ''temperature'', JNum 14), (str ''windspeed'', JNum 9),
           (str ''winddirection'', JNum 220), (str ''weathercode'', JNum 3),
           (str ''time'', JStr (str ''2024-05-01T12:00''))]"

definition five_day_forecast :: jsval where
  "five_day_forecast =
     JObj [(str ''timezone'', JStr (str ''Europe/London'')),
           (str ''current_weather'', five_day_current),
           (str ''daily'', five_day_daily)]"

definition five_day_response :: response where
  "five_day_response = \<lparr>status = 200, payload = Json five_day_forecast\<rparr>"

definition london :: location where
  "london =
     \<lparr>name = str ''London'', admin1 = Some (str ''England''),
      country = str ''United Kingdom'', latitude = 5151 / 100, longitude = - (13 / 100),
      population = Some 7556900\<rparr>"

section \<open>Auxiliary facts\<close>

lemma trim_Nil_iff: "trim q = [] \<longleftrightarrow> list_all is_white q"
proof
  assume t: "trim q = []"
  show "list_all is_white q"
  proof (rule ccontr)
    assume "\<not> list_all is_white q"
    then have ne: "dropWhile is_white q \<noteq> []"
      by (simp add: list_all_iff dropWhile_eq_Nil_conv)
    then have "\<not> is_white (hd (dropWhile is_white q))"
      by (rule hd_dropWhile)
    moreover have "hd (dropWhile is_white q) \<in> set (rev (dropWhile is_white q))"
      using ne by simp
    ultimately have "dropWhile is_white (rev (dropWhile is_white q)) \<noteq> []"
      by (auto simp: dropWhile_eq_Nil_conv)
    then show False using t by (simp add: trim_def)
  qed
next
  assume "list_all is_white q"
  then show "trim q = []"
    by (auto simp: trim_def list_all_iff dest: set_dropWhileD)
qed

lemma digit_unit: "k < 10 \<Longrightarrow> unat (48 + of_nat k :: 16 word) = 48 + k"
proof -
  assume "k < 10"
  then have "unat (of_nat (48 + k) :: 16 word) = 48 + k"
    unfolding unat_of_nat by simp
  then show ?thesis by simp
qed

text \<open>\<open>string_of_nat\<close> prints the decimal numeral of its argument.\<close>

lemma string_of_nat_decimal:
  "digits_value (string_of_nat n) = n \<and>
   (\<forall>d \<in> set (string_of_nat n). 48 \<le> unat d \<and> unat d \<le> 57)"
proof (induction n rule: string_of_nat.induct)
  case (1 n)
  show ?case
  proof (cases "n < 10")
    case True
    then show ?thesis
      by (subst string_of_nat.simps, subst (2) string_of_nat.simps)
         (simp add: digits_value_def digit_unit)
  next
    case False
    have m: "n mod 10 < 10" by simp
    from False 1 have ih: "digits_value (string_of_nat (n div 10)) = n div 10"
      "\<forall>d \<in> set (string_of_nat (n div 10)). 48 \<le> unat d \<and> unat d \<le> 57"
      by simp_all
    have eq: "string_of_nat n = string_of_nat (n div 10) @ [of_nat (48 + n mod 10)]"
      using False by (subst string_of_nat.simps) simp
    have "digits_value (string_of_nat n) = 10 * (n div 10) + n mod 10"
      using ih(1) by (simp add: eq digits_value_def digit_unit [OF m])
    then show ?thesis
      using ih(2) by (simp add: eq digit_unit [OF m])
  qed
qed

lemma toFixed2_rounding:
  "nat \<lfloor>\<bar>5151 / 100 :: rat\<bar> * 100 + 1 / 2\<rfloor> = 5151"
  "nat \<lfloor>\<bar>- (13 / 100) :: rat\<bar> * 100 + 1 / 2\<rfloor> = 13"
  "nat \<lfloor>\<bar>1 / 8 :: rat\<bar> * 100 + 1 / 2\<rfloor> = 13"
  by code_simp+

lemma string_of_nat_samples:
  "string_of_nat 5151 = str ''5151''"
  "string_of_nat 13 = str ''13''"
  "string_of_nat 500 = str ''500''"
  by (simp_all add: string_of_nat.simps str_def)

lemma toFixed2_samples:
  "toFixed2 (5151 / 100) = str ''51.51''"
  "toFixed2 (- (13 / 100)) = str ''-0.13''"
  "toFixed2 (1 / 8) = str ''0.13''"
  unfolding toFixed2_def toFixed2_rounding Let_def string_of_nat_samples
  by (simp_all add: str_def)

text \<open>
  A query with a surrogate on its own never reaches the network: the search ends at
  once with the URIError's message; a proper pair is encoded like any other character.
\<close>

lemma searchCity_start_unpaired_surrogate:
  "trim (query s) \<noteq> [] \<Longrightarrow> has_unpaired_surrogate (query s) \<Longrightarrow>
     searchCity_start s =
       (s\<lparr>error := Some (str ''URI malformed''), locations := JArr [], weather := JNull,
          loadingGeo := False\<rparr>, None)"
  by (simp add: searchCity_start_def uri_malformed_def message_or_def str_def)

lemma has_unpaired_surrogate_samples:
  "has_unpaired_surrogate [0x4F, 0xD83C]"
  "has_unpaired_surrogate [0xDF24, 0x4F]"
  "\<not> has_unpaired_surrogate [0x4F, 0xD83C, 0xDF24, 0xFE0F]"
  by (simp_all add: is_leading_surrogate_def is_trailing_surrogate_def)

text \<open>Only \<open>null\<close> and \<open>undefined\<close> make a property read throw.\<close>

lemma js_get_defined:
  "data \<noteq> JNull \<Longrightarrow> data \<noteq> JUndef \<Longrightarrow> \<exists>v. js_get data p = Inr v"
  by (cases data) simp_all

lemma js_get_truthy_object:
  assumes "js_get data k = Inr v" and "truthy v"
  obtains kvs where "data = JObj kvs" and "map_of kvs k = Some v"
  using assms by (cases data) (auto split: option.splits)

lemma js_get_with_placeName: "js_get (with_placeName data v) (str ''placeName'') = Inr v"
  by (simp add: with_placeName_def update_conv')

lemma js_get_with_placeName_other:
  "k \<noteq> str ''placeName'' \<Longrightarrow> js_get (with_placeName (JObj kvs) v) k = js_get (JObj kvs) k"
  by (simp add: with_placeName_def update_conv')

lemma daily_is_not_placeName: "str ''daily'' \<noteq> str ''placeName''"
  by (simp add: str_def)

text \<open>The successful path of the forecast fetch.\<close>

lemma try_success:
  assumes "ok res" and "payload res = Json data"
    and "js_get data (str ''current_weather'') = Inr cw" and "truthy cw"
  shows "\<exists>tz. js_get data (str ''timezone'') = Inr tz \<and>
           fetchWeatherByCoords_try placeName (Responded res) =
             Inr (with_placeName data (case placeName of Some p \<Rightarrow> JStr p | None \<Rightarrow> tz))"
proof -
  from assms(3,4) obtain kvs where "data = JObj kvs"
    by (rule js_get_truthy_object)
  then obtain tz where "js_get data (str ''timezone'') = Inr tz"
    by simp
  then show ?thesis
    using assms by (auto simp: fetchWeatherByCoords_try_def split: option.splits)
qed

lemma resolve_success:
  assumes "fetchWeatherByCoords_try placeName outcome = Inr w"
  shows "fetchWeatherByCoords_resolve placeName outcome s =
           s\<lparr>weather := w, loadingWeather := False\<rparr>"
  using assms by (simp add: fetchWeatherByCoords_resolve_def)

lemma resolve_failure:
  assumes "fetchWeatherByCoords_try placeName outcome = Inl (Thrown m)" and "m \<noteq> []"
  shows "fetchWeatherByCoords_resolve placeName outcome s =
           s\<lparr>error := Some m, loadingWeather := False\<rparr>"
  using assms by (simp add: fetchWeatherByCoords_resolve_def message_or_def)

lemma run_failure:
  assumes "fetchWeatherByCoords_try placeName outcome = Inl (Thrown m)" and "m \<noteq> []"
  shows "error (fetchWeatherByCoords fixed2 lat lon placeName outcome s) = Some m"
    and "weather (fetchWeatherByCoords fixed2 lat lon placeName outcome s) = JNull"
    and "weather (fetchWeatherByCoords_resolve placeName outcome s) = weather s"
  by (simp_all add: fetchWeatherByCoords_def resolve_failure [OF assms]
      fetchWeatherByCoords_start_def)

lemma run_success:
  assumes "fetchWeatherByCoords_try placeName outcome = Inr w"
  shows "fetchWeatherByCoords fixed2 lat lon placeName outcome s =
           (fst (fetchWeatherByCoords_start fixed2 lat lon placeName s))
             \<lparr>weather := w, loadingWeather := False\<rparr>"
  by (simp add: fetchWeatherByCoords_def resolve_success [OF assms])

text \<open>The sample inputs satisfy what the theorems below assume.\<close>

lemma five_day_ok:
  "ok five_day_response"
  "payload five_day_response = Json five_day_forecast"
  by (simp_all add: five_day_response_def ok_def)

lemma five_day_current_weather:
  "js_get five_day_forecast (str ''current_weather'') = Inr five_day_current"
  "truthy five_day_current"
  by (simp_all add: five_day_forecast_def five_day_current_def str_def)

lemma five_day_timezone:
  "js_get five_day_forecast (str ''timezone'') = Inr (JStr (str ''Europe/London''))"
  by (simp add: five_day_forecast_def str_def)

lemma five_day_time:
  "js_get five_day_forecast (str ''daily'') = Inr five_day_daily"
  "js_get five_day_daily (str ''time'') = Inr (JArr five_days)"
  "3 < length five_days"
  by (simp_all add: five_day_forecast_def five_day_daily_def five_days_def str_def)

lemma london_fields:
  "latitude london = 5151 / 100"
  "longitude london = - (13 / 100)"
  "location_label london = str ''London, England''"
  by (simp_all add: london_def location_label_def str_def)

section \<open>The weather-code resolver\<close>

text \<open>
  C2. Each of the thirteen codes of the table resolves to its own text and icon; every
  other number (so every other integer code) and an absent code resolve to the unknown
  descriptor, text \<open>Unknown\<close> and icon U+2753.
\<close>

theorem mapWeather_table:
  "mapWeather (Some 0) = \<lparr>text' = str ''Clear sky'', icon = [0x2600, 0xFE0F]\<rparr>
   \<and> mapWeather (Some 1) = \<lparr>text' = str ''Mainly clear'', icon = [0xD83C, 0xDF24, 0xFE0F]\<rparr>
   \<and> mapWeather (Some 2) = \<lparr>text' = str ''Partly cloudy'', icon = [0x26C5]\<rparr>
   \<and> mapWeather (Some 3) = \<lparr>text' = str ''Overcast'', icon = [0x2601, 0xFE0F]\<rparr>
   \<and> mapWeather (Some 45) = \<lparr>text' = str ''Fog'', icon = [0xD83C, 0xDF2B, 0xFE0F]\<rparr>
   \<and> mapWeather (Some 48) = \<lparr>text' = str ''Fog (rime)'', icon = [0xD83C, 0xDF2B, 0xFE0F]\<rparr>
   \<and> mapWeather (Some 51) = \<lparr>text' = str ''Light drizzle'', icon = [0xD83C, 0xDF26, 0xFE0F]\<rparr>
   \<and> mapWeather (Some 61) = \<lparr>text' = str ''Slight rain'', icon = [0xD83C, 0xDF27, 0xFE0F]\<rparr>
   \<and> mapWeather (Some 63) = \<lparr>text' = str ''Moderate rain'', icon = [0xD83C, 0xDF27, 0xFE0F]\<rparr>
   \<and> mapWeather (Some 65) = \<lparr>text' = str ''Heavy rain'', icon = [0x26C8, 0xFE0F]\<rparr>
   \<and> mapWeather (Some 71) = \<lparr>text' = str ''Light snow'', icon = [0x2744, 0xFE0F]\<rparr>
   \<and> mapWeather (Some 80) = \<lparr>text' = str ''Showers'', icon = [0xD83C, 0xDF27, 0xFE0F]\<rparr>
   \<and> mapWeather (Some 95) = \<lparr>text' = str ''Thunderstorm'', icon = [0x26C8, 0xFE0F]\<rparr>
   \<and> (\<forall>c. c \<notin> {0, 1, 2, 3, 45, 48, 51, 61, 63, 65, 71, 80, 95}
          \<longrightarrow> mapWeather (Some c) = \<lparr>text' = str ''Unknown'', icon = [0x2753]\<rparr>)
   \<and> mapWeather None = \<lparr>text' = str ''Unknown'', icon = [0x2753]\<rparr>"
  by (simp add: mapWeather_def WEATHER_CODE_MAP_def unknown_descriptor_def)

theorem mapWeather_table_witness:
  "(4::rat) \<notin> {0, 1, 2, 3, 45, 48, 51, 61, 63, 65, 71, 80, 95}
   \<and> mapWeather (Some 4) = \<lparr>text' = str ''Unknown'', icon = [0x2753]\<rparr>"
  using mapWeather_table by simp

section \<open>Searching\<close>

text \<open>
  C3. When the query is empty or made of white space only, \<open>searchCity\<close> sends no
  request and returns the state it was given, whatever that state is.
\<close>

theorem searchCity_blank_query:
  "list_all is_white (query s) \<Longrightarrow>
     searchCity_start s = (s, None) \<and> searchCity outcome s = s"
  by (simp add: searchCity_def searchCity_start_def trim_Nil_iff)

theorem searchCity_blank_query_witness:
  "list_all is_white (query (initial_state\<lparr>query := str ''   ''\<rparr>))
   \<and> searchCity_start (initial_state\<lparr>query := str ''   ''\<rparr>)
       = (initial_state\<lparr>query := str ''   ''\<rparr>, None)
   \<and> list_all is_white (query initial_state)
   \<and> searchCity_start initial_state = (initial_state, None)"
  using searchCity_blank_query [of "initial_state\<lparr>query := str ''   ''\<rparr>"]
    searchCity_blank_query [of initial_state]
  by (simp add: str_def is_white_def initial_state_def)

text \<open>
  C4 (counterexample). A geocoding response with status 200 whose body is the JSON
  literal \<open>null\<close> succeeds and carries no results, yet the error shown is not
  \<open>No matching locations found.\<close>: reading \<open>results\<close> of \<open>null\<close> throws, and the
  \<open>catch\<close> shows the message of that TypeError.
\<close>

theorem searchCity_null_body:
  "error (searchCity (Responded \<lparr>status = 200, payload = Json JNull\<rparr>)
            (initial_state\<lparr>query := str ''Atlantis''\<rparr>))
     = Some (message (cannot_read ''null'' (str ''results'')))
   \<and> error (searchCity (Responded \<lparr>status = 200, payload = Json JNull\<rparr>)
            (initial_state\<lparr>query := str ''Atlantis''\<rparr>))
     \<noteq> Some (str ''No matching locations found.'')"
  by (simp add: searchCity_def searchCity_start_def searchCity_resolve_def searchCity_try_def
      ok_def message_or_def cannot_read_def trim_def is_white_def str_def
      is_leading_surrogate_def is_trailing_surrogate_def)

text \<open>
  C4 (amended). When the geocoding request succeeds with a payload other than \<open>null\<close>
  whose \<open>results\<close> is missing or an empty array, the handler only sets the error
  message \<open>No matching locations found.\<close> and clears the loading flag; after a whole
  search that sent its request, the candidate list is empty and the error is that
  message.
\<close>

theorem searchCity_no_results:
  "ok res \<Longrightarrow> payload res = Json data \<Longrightarrow> data \<noteq> JNull \<Longrightarrow>
   js_get data (str ''results'') = Inr r \<Longrightarrow> r = JUndef \<or> r = JArr [] \<Longrightarrow>
     searchCity_resolve (Responded res) s =
       s\<lparr>error := Some (str ''No matching locations found.''), loadingGeo := False\<rparr>
     \<and> (trim (query s) \<noteq> [] \<and> \<not> has_unpaired_surrogate (query s) \<longrightarrow>
          locations (searchCity (Responded res) s) = JArr []
          \<and> error (searchCity (Responded res) s) = Some (str ''No matching locations found.''))"
  by (auto simp: searchCity_def searchCity_start_def searchCity_resolve_def searchCity_try_def)

theorem searchCity_no_results_witness:
  "trim (query (initial_state\<lparr>query := str ''Atlantis''\<rparr>)) \<noteq> []
   \<and> \<not> has_unpaired_surrogate (query (initial_state\<lparr>query := str ''Atlantis''\<rparr>))
   \<and> JObj [(str ''results'', JArr [])] \<noteq> JNull
   \<and> locations (searchCity
      (Responded \<lparr>status = 200, payload = Json (JObj [(str ''results'', JArr [])])\<rparr>)
      (initial_state\<lparr>query := str ''Atlantis''\<rparr>)) = JArr []
   \<and> error (searchCity
      (Responded \<lparr>status = 200, payload = Json (JObj [(str ''results'', JArr [])])\<rparr>)
      (initial_state\<lparr>query := str ''Atlantis''\<rparr>)) = Some (str ''No matching locations found.'')"
  using searchCity_no_results
    [of "\<lparr>status = 200, payload = Json (JObj [(str ''results'', JArr [])])\<rparr>"
        "JObj [(str ''results'', JArr [])]" "JArr []"
        "initial_state\<lparr>query := str ''Atlantis''\<rparr>"]
  by (simp add: ok_def str_def trim_def is_white_def
      is_leading_surrogate_def is_trailing_surrogate_def)

section \<open>Fetching the forecast\<close>

text \<open>
  A body that is the JSON literal \<open>null\<close> has no properties to read: the read itself
  throws, and the error shown is the engine's message for it. The weather stays
  \<open>null\<close> here too.
\<close>

lemma fetchWeatherByCoords_null_payload:
  "ok res \<Longrightarrow> payload res = Json JNull \<Longrightarrow>
     error (fetchWeatherByCoords fixed2 lat lon placeName (Responded res) s) =
       Some (message (cannot_read ''null'' (str ''current_weather'')))
     \<and> weather (fetchWeatherByCoords fixed2 lat lon placeName (Responded res) s) = JNull"
proof -
  assume a: "ok res" "payload res = Json JNull"
  obtain m where m: "cannot_read ''null'' (str ''current_weather'') = Thrown m" "m \<noteq> []"
    by (simp add: cannot_read_def str_def)
  have t: "fetchWeatherByCoords_try placeName (Responded res) = Inl (Thrown m)"
    using a m(1) by (simp add: fetchWeatherByCoords_try_def)
  show ?thesis
    using run_failure [OF t m(2)] m(1) by simp
qed

text \<open>
  C5 (counterexample). A forecast response with status 200 whose body is the JSON
  literal \<open>null\<close> parses and has no \<open>current_weather\<close>, yet the error shown is not
  \<open>Weather data not found in API response\<close> but the message of the TypeError.
\<close>

theorem fetchWeatherByCoords_null_body:
  "error (fetchWeatherByCoords toFixed2 51 0 None
            (Responded \<lparr>status = 200, payload = Json JNull\<rparr>) initial_state)
     = Some (message (cannot_read ''null'' (str ''current_weather'')))
   \<and> error (fetchWeatherByCoords toFixed2 51 0 None
            (Responded \<lparr>status = 200, payload = Json JNull\<rparr>) initial_state)
     \<noteq> Some (str ''Weather data not found in API response'')"
proof -
  have "ok \<lparr>status = 200, payload = Json JNull\<rparr>"
    by (simp add: ok_def)
  from fetchWeatherByCoords_null_payload [OF this, of toFixed2 51 0 None initial_state]
  show ?thesis
    by (simp add: cannot_read_def str_def)
qed

text \<open>
  C5 (amended). When the forecast request succeeds with a payload other than \<open>null\<close>
  from which \<open>current_weather\<close> is missing (or is there with a falsy value), the
  \<open>try\<close> block throws \<open>Weather data not found in API response\<close>; that message
  becomes the error, and the weather stays \<open>null\<close>.
\<close>

theorem fetchWeatherByCoords_no_current_weather:
  "ok res \<Longrightarrow> payload res = Json data \<Longrightarrow> data \<noteq> JNull \<Longrightarrow>
   js_get data (str ''current_weather'') = Inr cw \<Longrightarrow> cw = JUndef \<or> \<not> truthy cw \<Longrightarrow>
     fetchWeatherByCoords_try placeName (Responded res) =
       Inl (Thrown (str ''Weather data not found in API response''))
     \<and> error (fetchWeatherByCoords fixed2 lat lon placeName (Responded res) s) =
         Some (str ''Weather data not found in API response'')
     \<and> weather (fetchWeatherByCoords fixed2 lat lon placeName (Responded res) s) = JNull
     \<and> weather (fetchWeatherByCoords_resolve placeName (Responded res) s') = weather s'"
proof -
  assume a: "ok res" "payload res = Json data"
    "js_get data (str ''current_weather'') = Inr cw" "cw = JUndef \<or> \<not> truthy cw"
  from a(4) have "\<not> truthy cw"
    by auto
  with a have t: "fetchWeatherByCoords_try placeName (Responded res) =
             Inl (Thrown (str ''Weather data not found in API response''))"
    by (simp add: fetchWeatherByCoords_try_def)
  have n: "str ''Weather data not found in API response'' \<noteq> []"
    by (simp add: str_def)
  show ?thesis
    using t run_failure [OF t n] by simp
qed

theorem fetchWeatherByCoords_no_current_weather_witness:
  "JObj [(str ''timezone'', JStr (str ''UTC''))] \<noteq> JNull
   \<and> js_get (JObj [(str ''timezone'', JStr (str ''UTC''))]) (str ''current_weather'')
       = Inr JUndef
   \<and> error (fetchWeatherByCoords toFixed2 51 0 None
      (Responded \<lparr>status = 200, payload = Json (JObj [(str ''timezone'', JStr (str ''UTC''))])\<rparr>)
      initial_state) = Some (str ''Weather data not found in API response'')
   \<and> weather (fetchWeatherByCoords toFixed2 51 0 None
      (Responded \<lparr>status = 200, payload = Json (JObj [(str ''timezone'', JStr (str ''UTC''))])\<rparr>)
      initial_state) = JNull"
  using fetchWeatherByCoords_no_current_weather
    [of "\<lparr>status = 200, payload = Json (JObj [(str ''timezone'', JStr (str ''UTC''))])\<rparr>"
        "JObj [(str ''timezone'', JStr (str ''UTC''))]" JUndef None toFixed2 51 0 initial_state]
  by (simp add: ok_def str_def)

text \<open>
  C6. When the forecast endpoint answers with a status \<open>S\<close> outside 200..299, the
  \<open>try\<close> block throws \<open>Weather request failed with status S\<close>; that message becomes
  the error, and the weather stays \<open>null\<close>.
\<close>

theorem fetchWeatherByCoords_bad_status:
  "status res < 200 \<or> 299 < status res \<Longrightarrow>
     fetchWeatherByCoords_try placeName (Responded res) =
       Inl (Thrown (str ''Weather request failed with status '' @ string_of_nat (status res)))
     \<and> error (fetchWeatherByCoords fixed2 lat lon placeName (Responded res) s) =
         Some (str ''Weather request failed with status '' @ string_of_nat (status res))
     \<and> weather (fetchWeatherByCoords fixed2 lat lon placeName (Responded res) s) = JNull
     \<and> weather (fetchWeatherByCoords_resolve placeName (Responded res) s') = weather s'"
proof -
  assume "status res < 200 \<or> 299 < status res"
  then have t: "fetchWeatherByCoords_try placeName (Responded res) =
      Inl (Thrown (str ''Weather request failed with status '' @ string_of_nat (status res)))"
    by (auto simp: fetchWeatherByCoords_try_def ok_def)
  have n: "str ''Weather request failed with status '' @ string_of_nat (status res) \<noteq> []"
    by (simp add: str_def)
  show ?thesis
    using t run_failure [OF t n] by simp
qed

theorem fetchWeatherByCoords_bad_status_witness:
  "error (fetchWeatherByCoords toFixed2 51 0 None
      (Responded \<lparr>status = 500, payload = BodyFailed (Thrown [])\<rparr>) initial_state)
     = Some (str ''Weather request failed with status 500'')
   \<and> weather (fetchWeatherByCoords toFixed2 51 0 None
      (Responded \<lparr>status = 500, payload = BodyFailed (Thrown [])\<rparr>) initial_state) = JNull"
  using fetchWeatherByCoords_bad_status
    [of "\<lparr>status = 500, payload = BodyFailed (Thrown [])\<rparr>" None toFixed2 51 0 initial_state]
  by (simp add: string_of_nat_samples str_def)

text \<open>
  C7. After a successful fetch the snapshot's \<open>placeName\<close> is the place name passed
  in when there is one, and the payload's \<open>timezone\<close> otherwise.
\<close>

theorem fetchWeatherByCoords_placeName:
  "ok res \<Longrightarrow> payload res = Json data \<Longrightarrow>
   js_get data (str ''current_weather'') = Inr cw \<Longrightarrow> truthy cw \<Longrightarrow>
     js_get (weather (fetchWeatherByCoords fixed2 lat lon placeName (Responded res) s))
            (str ''placeName'')
       = (case placeName of
            Some p \<Rightarrow> Inr (JStr p)
          | None \<Rightarrow> js_get data (str ''timezone''))"
proof -
  assume a: "ok res" "payload res = Json data"
    "js_get data (str ''current_weather'') = Inr cw" "truthy cw"
  from try_success [OF a, of placeName] obtain tz where
    tz: "js_get data (str ''timezone'') = Inr tz" and
    t: "fetchWeatherByCoords_try placeName (Responded res) =
          Inr (with_placeName data (case placeName of Some p \<Rightarrow> JStr p | None \<Rightarrow> tz))"
    by blast
  show ?thesis
    by (simp add: run_success [OF t] js_get_with_placeName tz split: option.splits)
qed

theorem fetchWeatherByCoords_placeName_witness:
  "js_get (weather (fetchWeatherByCoords toFixed2 51 0 (Some (str ''Home''))
             (Responded five_day_response) initial_state)) (str ''placeName'')
     = Inr (JStr (str ''Home''))
   \<and> js_get (weather (fetchWeatherByCoords toFixed2 51 0 None
             (Responded five_day_response) initial_state)) (str ''placeName'')
     = Inr (JStr (str ''Europe/London''))"
  using fetchWeatherByCoords_placeName [OF five_day_ok five_day_current_weather,
      of toFixed2 51 0 "Some (str ''Home'')" initial_state]
    fetchWeatherByCoords_placeName [OF five_day_ok five_day_current_weather,
      of toFixed2 51 0 None initial_state]
  by (simp add: five_day_timezone)

text \<open>
  C1 (counterexample). A successful fetch of a payload with five daily entries stores a
  snapshot whose \<open>daily.time\<close> still has five entries, not three.
\<close>

theorem stored_daily_not_truncated:
  "length (daily_time (weather (fetchWeatherByCoords toFixed2 (5151 / 100) (- (13 / 100))
             (Some (str ''London'')) (Responded five_day_response) initial_state))) = 5
   \<and> length (daily_time (weather (fetchWeatherByCoords toFixed2 (5151 / 100) (- (13 / 100))
             (Some (str ''London'')) (Responded five_day_response) initial_state))) \<noteq> 3"
proof -
  have "fetchWeatherByCoords_try (Some (str ''London'')) (Responded five_day_response) =
          Inr (with_placeName five_day_forecast (JStr (str ''London'')))"
    by (simp add: fetchWeatherByCoords_try_def five_day_ok five_day_current_weather)
  then have "weather (fetchWeatherByCoords toFixed2 (5151 / 100) (- (13 / 100))
               (Some (str ''London'')) (Responded five_day_response) initial_state)
             = with_placeName five_day_forecast (JStr (str ''London''))"
    by (simp add: fetchWeatherByCoords_def fetchWeatherByCoords_resolve_def)
  moreover have "daily_time (with_placeName five_day_forecast (JStr (str ''London'')))
                   = five_days"
    by (simp add: daily_time_def with_placeName_def five_day_forecast_def five_day_daily_def
        str_def)
  ultimately show ?thesis
    by (simp add: five_days_def)
qed

text \<open>
  C1 (amended). After a successful fetch of a payload whose \<open>daily.time\<close> is an array
  of more than three entries, the stored snapshot keeps that array whole, and the
  forecast view maps over exactly its first three entries, in the order received.
\<close>

theorem forecastDays_first_three:
  "ok res \<Longrightarrow> payload res = Json data \<Longrightarrow>
   js_get data (str ''current_weather'') = Inr cw \<Longrightarrow> truthy cw \<Longrightarrow>
   js_get data (str ''daily'') = Inr daily \<Longrightarrow>
   js_get daily (str ''time'') = Inr (JArr days) \<Longrightarrow> 3 < length days \<Longrightarrow>
     daily_time (weather (fetchWeatherByCoords fixed2 lat lon placeName (Responded res) s))
       = days
     \<and> forecastDays (weather (fetchWeatherByCoords fixed2 lat lon placeName (Responded res) s))
         = Inr [days ! 0, days ! 1, days ! 2]"
proof -
  assume a: "ok res" "payload res = Json data"
    "js_get data (str ''current_weather'') = Inr cw" "truthy cw"
  assume daily: "js_get data (str ''daily'') = Inr daily"
  assume days: "js_get daily (str ''time'') = Inr (JArr days)"
  assume len: "3 < length days"
  from a(3,4) obtain kvs where d: "data = JObj kvs"
    by (rule js_get_truthy_object)
  from try_success [OF a] obtain v where
    t: "fetchWeatherByCoords_try placeName (Responded res) = Inr (with_placeName data v)"
    by blast
  have w: "weather (fetchWeatherByCoords fixed2 lat lon placeName (Responded res) s)
             = with_placeName data v"
    by (simp add: run_success [OF t])
  have g: "js_get (with_placeName data v) (str ''daily'') = Inr daily"
    using daily d by (simp only: js_get_with_placeName_other [OF daily_is_not_placeName])
  have nn: "daily \<noteq> JUndef" "daily \<noteq> JNull"
    using days by auto
  have f: "forecastDays (with_placeName data v) = Inr (take 3 days)"
    using g days nn by (cases daily) (simp_all add: forecastDays_def)
  from len obtain a r1 where 1: "days = a # r1"
    by (cases days) auto
  with len obtain b r2 where 2: "r1 = b # r2"
    by (cases r1) auto
  with 1 len obtain c r3 where 3: "r2 = c # r3"
    by (cases r2) auto
  have "take 3 days = [days ! 0, days ! 1, days ! 2]"
    by (simp add: 1 2 3 numeral_3_eq_3)
  then show ?thesis
    using w g f days by (simp add: daily_time_def)
qed

theorem forecastDays_first_three_witness:
  "daily_time (weather (fetchWeatherByCoords toFixed2 (5151 / 100) (- (13 / 100))
       (Some (str ''London'')) (Responded five_day_response) initial_state)) = five_days
   \<and> forecastDays (weather (fetchWeatherByCoords toFixed2 (5151 / 100) (- (13 / 100))
       (Some (str ''London'')) (Responded five_day_response) initial_state))
     = Inr [JStr (str ''2024-05-01''), JStr (str ''2024-05-02''), JStr (str ''2024-05-03'')]"
  using forecastDays_first_three [OF five_day_ok five_day_current_weather five_day_time,
      of toFixed2 "5151 / 100" "- (13 / 100)" "Some (str ''London'')" initial_state]
  by (simp add: five_days_def)

section \<open>Selecting a candidate\<close>

text \<open>
  C8. Selecting a candidate requests the forecast for exactly the candidate's latitude
  and longitude and sets the query text to its label: the name, followed by a comma, a
  space and \<open>admin1\<close> when \<open>admin1\<close> is a non-empty string. When the request succeeds,
  the candidate list is empty, the query text is still the label, and the snapshot is
  the payload with \<open>placeName\<close> set to the label.
\<close>

theorem onSelectLocation_label:
  "location_label loc =
     (case admin1 loc of
        None \<Rightarrow> name loc
      | Some a \<Rightarrow> if a = [] then name loc else name loc @ str '', '' @ a)
   \<and> snd (onSelectLocation_start fixed2 loc s) =
       ForecastRequest (latitude loc) (longitude loc)
   \<and> query (fst (onSelectLocation_start fixed2 loc s)) = location_label loc
   \<and> (ok res \<and> payload res = Json data \<and>
       js_get data (str ''current_weather'') = Inr cw \<and> truthy cw \<longrightarrow>
         locations (onSelectLocation fixed2 loc (Responded res) s) = JArr []
         \<and> query (onSelectLocation fixed2 loc (Responded res) s) = location_label loc
         \<and> weather (onSelectLocation fixed2 loc (Responded res) s) =
             with_placeName data (JStr (location_label loc))
         \<and> js_get (weather (onSelectLocation fixed2 loc (Responded res) s))
                  (str ''placeName'') = Inr (JStr (location_label loc)))"
proof -
  have l: "location_label loc =
       (case admin1 loc of
          None \<Rightarrow> name loc
        | Some a \<Rightarrow> if a = [] then name loc else name loc @ str '', '' @ a)"
    by (simp add: location_label_def split: option.splits)
  have st1: "snd (onSelectLocation_start fixed2 loc s) =
               ForecastRequest (latitude loc) (longitude loc)"
    by (simp add: onSelectLocation_start_def fetchWeatherByCoords_start_def)
  have st2: "query (fst (onSelectLocation_start fixed2 loc s)) = location_label loc"
    by (simp add: onSelectLocation_start_def fetchWeatherByCoords_start_def)
  have suc: "ok res \<and> payload res = Json data \<and>
       js_get data (str ''current_weather'') = Inr cw \<and> truthy cw \<longrightarrow>
         locations (onSelectLocation fixed2 loc (Responded res) s) = JArr []
         \<and> query (onSelectLocation fixed2 loc (Responded res) s) = location_label loc
         \<and> weather (onSelectLocation fixed2 loc (Responded res) s) =
             with_placeName data (JStr (location_label loc))
         \<and> js_get (weather (onSelectLocation fixed2 loc (Responded res) s))
                  (str ''placeName'') = Inr (JStr (location_label loc))"
  proof (intro impI, elim conjE)
    assume a: "ok res" "payload res = Json data"
      "js_get data (str ''current_weather'') = Inr cw" "truthy cw"
    from try_success [OF a, of "Some (location_label loc)"] have
      t: "fetchWeatherByCoords_try (Some (location_label loc)) (Responded res) =
            Inr (with_placeName data (JStr (location_label loc)))"
      by auto
    have r: "onSelectLocation fixed2 loc (Responded res) s =
        (fst (fetchWeatherByCoords_start fixed2 (latitude loc) (longitude loc)
                (Some (location_label loc)) s))
          \<lparr>weather := with_placeName data (JStr (location_label loc)),
           loadingWeather := False\<rparr>"
      by (simp add: onSelectLocation_def run_success [OF t])
    show "locations (onSelectLocation fixed2 loc (Responded res) s) = JArr []
         \<and> query (onSelectLocation fixed2 loc (Responded res) s) = location_label loc
         \<and> weather (onSelectLocation fixed2 loc (Responded res) s) =
             with_placeName data (JStr (location_label loc))
         \<and> js_get (weather (onSelectLocation fixed2 loc (Responded res) s))
                  (str ''placeName'') = Inr (JStr (location_label loc))"
      by (simp add: r fetchWeatherByCoords_start_def js_get_with_placeName)
  qed
  show ?thesis
    by (intro conjI l st1 st2 suc)
qed

theorem onSelectLocation_label_witness:
  "snd (onSelectLocation_start toFixed2 london initial_state) =
     ForecastRequest (5151 / 100) (- (13 / 100))
   \<and> query (fst (onSelectLocation_start toFixed2 london initial_state)) =
       str ''London, England''
   \<and> ok five_day_response \<and> payload five_day_response = Json five_day_forecast
   \<and> js_get five_day_forecast (str ''current_weather'') = Inr five_day_current
   \<and> truthy five_day_current
   \<and> locations (onSelectLocation toFixed2 london (Responded five_day_response) initial_state)
       = JArr []
   \<and> js_get (weather (onSelectLocation toFixed2 london (Responded five_day_response)
                        initial_state)) (str ''placeName'')
       = Inr (JStr (str ''London, England''))"
  using onSelectLocation_label
      [of london toFixed2 initial_state five_day_response five_day_forecast five_day_current]
    five_day_ok five_day_current_weather
  by (simp add: london_fields js_get_with_placeName)

section \<open>Device location\<close>

text \<open>
  C9. When the device reports a failure with message \<open>m\<close>, the loading flag of the
  forecast becomes false, the error becomes \<open>Could not get location: \<close> followed by
  \<open>m\<close>, and no request is sent. When geolocation is not available, the error becomes
  \<open>Geolocation not available in your browser.\<close>, no position is requested and the
  loading flag is left as it was.
\<close>

theorem useMyLocation_failures:
  "useMyLocation_resolve fixed2 (PositionError m) s =
     (s\<lparr>loadingWeather := False, error := Some (str ''Could not get location: '' @ m)\<rparr>, None)
   \<and> loadingWeather (fst (useMyLocation_resolve fixed2 (PositionError m)
                            (fst (useMyLocation_start True s)))) = False
   \<and> error (fst (useMyLocation_resolve fixed2 (PositionError m)
                   (fst (useMyLocation_start True s))))
       = Some (str ''Could not get location: '' @ m)
   \<and> useMyLocation_start False s =
       (s\<lparr>error := Some (str ''Geolocation not available in your browser.'')\<rparr>, False)
   \<and> loadingWeather (fst (useMyLocation_start False s)) = loadingWeather s"
  by (simp add: useMyLocation_resolve_def useMyLocation_start_def)

theorem useMyLocation_failures_witness:
  "useMyLocation_resolve toFixed2 (PositionError (str ''User denied Geolocation''))
     (fst (useMyLocation_start True initial_state))
   = (initial_state\<lparr>loadingWeather := False,
        error := Some (str ''Could not get location: User denied Geolocation'')\<rparr>, None)
   \<and> useMyLocation_start False initial_state =
       (initial_state\<lparr>error := Some (str ''Geolocation not available in your browser.'')\<rparr>,
        False)"
  using useMyLocation_failures
    [of toFixed2 "str ''User denied Geolocation''" "fst (useMyLocation_start True initial_state)"]
    useMyLocation_failures [of toFixed2 "[]" initial_state]
  by (simp add: useMyLocation_start_def initial_state_def str_def)

section \<open>Loading flags\<close>

text \<open>
  C10. However the geocoding request settles, \<open>loadingGeo\<close> is false once
  \<open>searchCity\<close> has handled it; however the forecast request settles,
  \<open>loadingWeather\<close> is false once \<open>fetchWeatherByCoords\<close> has handled it. This
  holds from every state, so also when other handlers ran in between.
\<close>

theorem loading_flags_cleared:
  "loadingGeo (searchCity_resolve outcome s) = False
   \<and> loadingWeather (fetchWeatherByCoords_resolve placeName outcome s) = False
   \<and> loadingWeather (fetchWeatherByCoords fixed2 lat lon placeName outcome s) = False
   \<and> (trim (query s) \<noteq> [] \<longrightarrow> loadingGeo (searchCity outcome s) = False)"
  by (simp add: searchCity_def searchCity_start_def searchCity_resolve_def
      fetchWeatherByCoords_def fetchWeatherByCoords_resolve_def split: sum.splits)

theorem loading_flags_cleared_witness:
  "trim (query (initial_state\<lparr>query := str ''Oslo''\<rparr>)) \<noteq> []
   \<and> loadingGeo (searchCity (Rejected (Thrown (str ''Failed to fetch'')))
                   (initial_state\<lparr>query := str ''Oslo''\<rparr>)) = False"
  using loading_flags_cleared
    [of "Rejected (Thrown (str ''Failed to fetch''))" "initial_state\<lparr>query := str ''Oslo''\<rparr>"]
  by (simp add: str_def trim_def is_white_def)

end
